theory Spec2Isabelle
  imports Main
begin

section \<open>Values, strings and JSON\<close>

text \<open>
  The server (\<^verbatim>\<open>src/server.ts\<close>) is an Express application with four request handlers.
  A JavaScript string is modelled as a \<^typ>\<open>string\<close>: one \<^typ>\<open>char\<close> stands for one UTF-16
  code unit below 256, so \<^const>\<open>length\<close> is the \<^verbatim>\<open>.length\<close> of the string. Strings with a
  code unit from 256 on are outside the model; what is proved about letter case is stated
  for ASCII strings only.

  A request body is what the JSON or urlencoded body parser left in \<^verbatim>\<open>req.body\<close>. The model
  covers flat bodies: an object whose properties hold scalars, an array, a scalar, or
  \<^verbatim>\<open>undefined\<close>. A property holding an array or a nested object is outside the model.
\<close>

datatype scalar = VNull | VBool bool | VNum int | VStr string

datatype payload =
    Object "(string \<times> scalar) list"
  | Array
  | Scalar "scalar option"

text \<open>The JSON a handler sends back.\<close>

datatype json = JBool bool | JStr string | JArr "json list" | JObj "(string \<times> json) list"

record response =
  status :: nat
  json :: json

text \<open>\<^verbatim>\<open>!x\<close> and \<^verbatim>\<open>x || y\<close> on a value that is a string or \<^verbatim>\<open>undefined\<close>.\<close>

fun truthy :: "string option \<Rightarrow> bool" where
  "truthy None = False"
| "truthy (Some s) = (s \<noteq> [])"

definition or_else :: "string option \<Rightarrow> string option \<Rightarrow> string option" where
  "or_else a b = (if truthy a then a else b)"

definition or_empty :: "string option \<Rightarrow> string" where
  "or_empty a = (case a of None \<Rightarrow> [] | Some s \<Rightarrow> s)"

text \<open>\<^verbatim>\<open>Array.prototype.join\<close> and \<^verbatim>\<open>String.prototype.split\<close> with the separator \<^verbatim>\<open>" "\<close>.\<close>

fun join :: "string \<Rightarrow> string list \<Rightarrow> string" where
  "join sep [] = []"
| "join sep [x] = x"
| "join sep (x # y # ys) = x @ sep @ join sep (y # ys)"

fun split_space :: "string \<Rightarrow> string list" where
  "split_space [] = [[]]"
| "split_space (c # cs) =
     (if c = CHR '' '' then [] # split_space cs
      else (case split_space cs of [] \<Rightarrow> [[c]] | p # ps \<Rightarrow> (c # p) # ps))"

text \<open>
  \<^verbatim>\<open>String.prototype.toLowerCase\<close> on a string of code units below 256: the letters A to Z
  and the Latin-1 capitals (0xC0 to 0xDE without the multiplication sign 0xD7) move up by 32,
  every other unit stays. The rules of the Unicode mapping that look at the neighbours of a
  character or change the length of the string concern characters from 256 on.
\<close>

definition lower_unit :: "char \<Rightarrow> char" where
  "lower_unit c =
     (let n = (of_char c :: nat)
      in if (65 \<le> n \<and> n \<le> 90) \<or> (192 \<le> n \<and> n \<le> 222 \<and> n \<noteq> 215)
         then char_of (n + 32) else c)"

definition toLowerCase :: "string \<Rightarrow> string" where
  "toLowerCase s = map lower_unit s"

section \<open>Configuration and collaborators\<close>

text \<open>The variables of \<^verbatim>\<open>process.env\<close> the handlers read; \<^const>\<open>None\<close> is an unset variable.\<close>

record env =
  MAILCHIMP_AUDIENCE_ID :: "string option"
  GMAIL_USER :: "string option"
  CONTACT_FORM_RECIPIENT :: "string option"

text \<open>
  The validation library (\<^verbatim>\<open>zod\<close>) is a dependency, not part of the sources. The schema
  calls \<^verbatim>\<open>z.email\<close>, which exists from version 4 of the library on. Two of its behaviours are
  parameters of the model: the test behind \<^verbatim>\<open>z.email\<close>, and the text of the message it
  gives a value of the wrong type (from the expected and the received type).
\<close>

record zod =
  email_format :: "string \<Rightarrow> bool"
  invalid_type_message :: "string \<Rightarrow> string \<Rightarrow> string"

text \<open>The error a call of the audience service throws (\<^verbatim>\<open>interface MailchimpError\<close>).\<close>

record error_body =
  title :: "string option"

record error_response =
  body :: "error_body option"

record MailchimpError =
  err_status :: "int option"
  err_response :: "error_response option"
  err_message :: string

record mailOptions =
  mail_from :: "string option"
  mail_to :: "string option"
  subject :: string
  html :: string
  replyTo :: string

record member =
  email_address :: string
  member_status :: string
  merge_fields :: "(string \<times> string) list"
  tags :: "string list option"

text \<open>
  The collaborators: the mail transport, the audience service and the digest of the
  \<^verbatim>\<open>crypto\<close> module. A call that throws returns \<^const>\<open>Inl\<close>: the message of the transport's
  error, or the error of the audience service. A successful \<^verbatim>\<open>addListMember\<close> returns the
  \<^verbatim>\<open>status\<close> of its response.
\<close>

record services =
  sendMail :: "mailOptions \<Rightarrow> string + unit"
  getListMember :: "string \<Rightarrow> string \<Rightarrow> MailchimpError + unit"
  addListMember :: "string \<Rightarrow> member \<Rightarrow> MailchimpError + string"
  updateListMember :: "string \<Rightarrow> string \<Rightarrow> string \<Rightarrow> MailchimpError + unit"
  md5_hex :: "string \<Rightarrow> string"

text \<open>What a handler does beyond its response, in order.\<close>

datatype event =
    SendMail mailOptions
  | Md5Digest string
  | GetListMember string string
  | AddListMember string member
  | UpdateListMember string string string
  | ConsoleError string

text \<open>
  A handler answers the request, or its promise rejects without an answer (an exception
  thrown outside every \<^verbatim>\<open>try\<close>, or inside a \<^verbatim>\<open>catch\<close> block).
\<close>

datatype outcome = Responded response | Rejected string

section \<open>The contact form schema\<close>

record issue =
  path :: "string list"
  issue_message :: string

record ContactSubmission =
  name :: string
  email :: string
  phone :: string
  contactAbout :: string
  message :: string
  agreeToPolicy :: bool

fun received_type :: "scalar option \<Rightarrow> string" where
  "received_type None = ''undefined''"
| "received_type (Some VNull) = ''null''"
| "received_type (Some (VBool b)) = ''boolean''"
| "received_type (Some (VNum n)) = ''number''"
| "received_type (Some (VStr s)) = ''string''"

text \<open>
  One function per property of \<^verbatim>\<open>contactFormSchema\<close>, from the value of the property
  (\<^const>\<open>None\<close> when the object has none) to the issues it raises. A value of the wrong type
  raises one issue and its checks do not run; the message given to \<^verbatim>\<open>z.email\<close> and
  \<^verbatim>\<open>z.string\<close> itself replaces the library's message for the wrong type as well.
\<close>

definition name_issues :: "zod \<Rightarrow> scalar option \<Rightarrow> issue list" where
  "name_issues z v =
     (case v of
        Some (VStr s) \<Rightarrow>
          (if length s < 2
           then [\<lparr>path = [''name''], issue_message = ''Name must be at least 2 characters.''\<rparr>]
           else [])
      | _ \<Rightarrow> [\<lparr>path = [''name''],
              issue_message = invalid_type_message z ''string'' (received_type v)\<rparr>])"

definition email_issues :: "zod \<Rightarrow> scalar option \<Rightarrow> issue list" where
  "email_issues z v =
     (case v of
        Some (VStr s) \<Rightarrow>
          (if email_format z s then []
           else [\<lparr>path = [''email''], issue_message = ''Please enter a valid email address.''\<rparr>])
      | _ \<Rightarrow> [\<lparr>path = [''email''], issue_message = ''Please enter a valid email address.''\<rparr>])"

definition phone_issues :: "zod \<Rightarrow> scalar option \<Rightarrow> issue list" where
  "phone_issues z v =
     (case v of
        Some (VStr s) \<Rightarrow>
          (if length s < 10
           then [\<lparr>path = [''phone''], issue_message = ''Please enter a valid phone number.''\<rparr>]
           else [])
      | _ \<Rightarrow> [\<lparr>path = [''phone''],
              issue_message = invalid_type_message z ''string'' (received_type v)\<rparr>])"

definition contactAbout_issues :: "zod \<Rightarrow> scalar option \<Rightarrow> issue list" where
  "contactAbout_issues z v =
     (case v of
        Some (VStr s) \<Rightarrow> []
      | _ \<Rightarrow> [\<lparr>path = [''contactAbout''], issue_message = ''Please select a topic.''\<rparr>])"

definition message_issues :: "zod \<Rightarrow> scalar option \<Rightarrow> issue list" where
  "message_issues z v =
     (case v of
        Some (VStr s) \<Rightarrow>
          (if length s < 20
           then [\<lparr>path = [''message''],
                  issue_message = ''Message must be at least 20 characters.''\<rparr>]
           else []) @
          (if 1000 < length s
           then [\<lparr>path = [''message''],
                  issue_message = ''Message must not exceed 1000 characters.''\<rparr>]
           else [])
      | _ \<Rightarrow> [\<lparr>path = [''message''],
              issue_message = invalid_type_message z ''string'' (received_type v)\<rparr>])"

definition agreeToPolicy_issues :: "zod \<Rightarrow> scalar option \<Rightarrow> issue list" where
  "agreeToPolicy_issues z v =
     (case v of
        Some (VBool b) \<Rightarrow>
          (if b = True then []
           else [\<lparr>path = [''agreeToPolicy''],
                  issue_message = ''You must agree to the policies to continue.''\<rparr>])
      | _ \<Rightarrow> [\<lparr>path = [''agreeToPolicy''],
              issue_message = invalid_type_message z ''boolean'' (received_type v)\<rparr>])"

definition the_string :: "scalar option \<Rightarrow> string" where
  "the_string v = (case v of Some (VStr s) \<Rightarrow> s | _ \<Rightarrow> [])"

definition the_bool :: "scalar option \<Rightarrow> bool" where
  "the_bool v = (case v of Some (VBool b) \<Rightarrow> b | _ \<Rightarrow> False)"

text \<open>
  \<^verbatim>\<open>contactFormSchema.parse(req.body)\<close>: the issues of all six properties, in the order of
  the schema, thrown together as one \<^verbatim>\<open>ZodError\<close> (\<^const>\<open>Inl\<close>) when there are any; an input that
  is not an object raises one issue with the empty path. Unknown properties are dropped.
\<close>

definition object_issues :: "zod \<Rightarrow> (string \<times> scalar) list \<Rightarrow> issue list" where
  "object_issues z kvs =
     name_issues z (map_of kvs ''name'') @
     email_issues z (map_of kvs ''email'') @
     phone_issues z (map_of kvs ''phone'') @
     contactAbout_issues z (map_of kvs ''contactAbout'') @
     message_issues z (map_of kvs ''message'') @
     agreeToPolicy_issues z (map_of kvs ''agreeToPolicy'')"

definition contactFormSchema_parse :: "zod \<Rightarrow> payload \<Rightarrow> issue list + ContactSubmission" where
  "contactFormSchema_parse z b =
     (case b of
        Object kvs \<Rightarrow>
          (if object_issues z kvs = []
           then Inr \<lparr>name = the_string (map_of kvs ''name''),
                     email = the_string (map_of kvs ''email''),
                     phone = the_string (map_of kvs ''phone''),
                     contactAbout = the_string (map_of kvs ''contactAbout''),
                     message = the_string (map_of kvs ''message''),
                     agreeToPolicy = the_bool (map_of kvs ''agreeToPolicy'')\<rparr>
           else Inl (object_issues z kvs))
      | Array \<Rightarrow> Inl [\<lparr>path = [], issue_message = invalid_type_message z ''object'' ''array''\<rparr>]
      | Scalar v \<Rightarrow>
          Inl [\<lparr>path = [], issue_message = invalid_type_message z ''object'' (received_type v)\<rparr>])"

section \<open>The handlers\<close>

subsection \<open>Subscribe to the newsletter\<close>

record SubscribeRequestBody =
  sub_email :: "string option"
  firstName :: "string option"
  lastName :: "string option"

definition subscribe_member :: "string \<Rightarrow> SubscribeRequestBody \<Rightarrow> member" where
  "subscribe_member e b =
     \<lparr>email_address = e, member_status = ''subscribed'',
      merge_fields = [(''FNAME'', or_empty (firstName b)), (''LNAME'', or_empty (lastName b))],
      tags = None\<rparr>"

text \<open>
  \<^verbatim>\<open>POST /api/mailchimp/newsletter/subscribe\<close>. The argument is \<^verbatim>\<open>req.body\<close>, \<^const>\<open>None\<close>
  when no parser filled it in: the destructuring of line 106 stands outside every \<^verbatim>\<open>try\<close>
  and throws on \<^verbatim>\<open>undefined\<close>. The guards come in the order of the source: the email
  first, the audience identifier second, then the call inside \<^verbatim>\<open>try\<close>.
\<close>

definition subscribe ::
  "services \<Rightarrow> env \<Rightarrow> SubscribeRequestBody option \<Rightarrow> outcome \<times> event list" where
  "subscribe sv ev req_body =
     (case req_body of
        None \<Rightarrow> (Rejected ''TypeError'', [])
      | Some b \<Rightarrow>
     (if \<not> truthy (sub_email b) then
        (Responded \<lparr>status = 400,
          json = JObj [(''success'', JBool False), (''message'', JStr ''Email is required'')]\<rparr>, [])
      else if \<not> truthy (MAILCHIMP_AUDIENCE_ID ev) then
        (Responded \<lparr>status = 500,
          json = JObj [(''success'', JBool False),
                       (''message'', JStr ''Mailchimp audience ID is not configured'')]\<rparr>, [])
      else
        (let e = or_empty (sub_email b);
             aid = or_empty (MAILCHIMP_AUDIENCE_ID ev);
             m = subscribe_member e b
         in (Responded (case addListMember sv aid m of
               Inr st \<Rightarrow>
                 \<lparr>status = 201,
                  json = JObj [(''success'', JBool True),
                               (''message'', JStr ''Successfully subscribed to newsletter!''),
                               (''status'', JStr st)]\<rparr>
             | Inl err \<Rightarrow>
                 (if err_status err = Some 400 \<and>
                     (case err_response err of
                        None \<Rightarrow> None
                      | Some r \<Rightarrow> (case body r of None \<Rightarrow> None | Some bd \<Rightarrow> title bd))
                     = Some ''Member Exists''
                  then
                    \<lparr>status = 400,
                     json = JObj [(''success'', JBool False),
                                  (''message'',
                                   JStr ''This email is already subscribed to the newsletter'')]\<rparr>
                  else
                    \<lparr>status = 500,
                     json = JObj [(''success'', JBool False),
                                  (''message'', JStr ''Failed to subscribe to newsletter''),
                                  (''error'', JStr (err_message err))]\<rparr>)),
             [AddListMember aid m]))))"

subsection \<open>Unsubscribe from the newsletter\<close>

text \<open>
  \<^verbatim>\<open>DELETE /api/mailchimp/newsletter/unsubscribe/:email\<close>; the argument is the path
  parameter. The route matches no empty parameter, so the first guard of the source, kept
  here, is never taken by a request.
\<close>

definition unsubscribe :: "services \<Rightarrow> env \<Rightarrow> string \<Rightarrow> response \<times> event list" where
  "unsubscribe sv ev e =
     (if e = [] then
        (\<lparr>status = 400,
          json = JObj [(''success'', JBool False), (''message'', JStr ''Email is required'')]\<rparr>, [])
      else if \<not> truthy (MAILCHIMP_AUDIENCE_ID ev) then
        (\<lparr>status = 500,
          json = JObj [(''success'', JBool False),
                       (''message'', JStr ''Mailchimp audience ID is not configured'')]\<rparr>, [])
      else
        (let aid = or_empty (MAILCHIMP_AUDIENCE_ID ev);
             subscriberHash = md5_hex sv (toLowerCase e)
         in (case updateListMember sv aid subscriberHash ''unsubscribed'' of
               Inr u \<Rightarrow>
                 \<lparr>status = 200,
                  json = JObj [(''success'', JBool True),
                               (''message'', JStr ''Successfully unsubscribed from newsletter'')]\<rparr>
             | Inl err \<Rightarrow>
                 \<lparr>status = 500,
                  json = JObj [(''success'', JBool False),
                               (''message'', JStr ''Failed to unsubscribe from newsletter''),
                               (''error'', JStr (err_message err))]\<rparr>,
             [Md5Digest (toLowerCase e),
              UpdateListMember aid subscriberHash ''unsubscribed''])))"

subsection \<open>Contact form submission\<close>

definition line_break :: string where
  "line_break = CHR 0x0A # ''        ''"

definition contact_mailOptions :: "env \<Rightarrow> ContactSubmission \<Rightarrow> mailOptions" where
  "contact_mailOptions ev d =
     \<lparr>mail_from = GMAIL_USER ev,
      mail_to = or_else (CONTACT_FORM_RECIPIENT ev) (GMAIL_USER ev),
      subject = ''New Contact Form Submission: '' @ name d @ '' '' @ email d,
      html =
        line_break @ ''<h2>New Contact Form Submission</h2>'' @
        line_break @ ''<p><strong>Name:</strong> '' @ name d @ ''</p>'' @
        line_break @ ''<p><strong>Email:</strong> '' @ email d @ ''</p>'' @
        line_break @ ''<p><strong>Phone:</strong> '' @ phone d @ ''</p>'' @
        line_break @ ''<p><strong>Topic:</strong> '' @ contactAbout d @ ''</p>'' @
        line_break @ ''<p><strong>Message:</strong></p>'' @
        line_break @ ''<p>'' @ message d @ ''</p>'' @
        line_break @ ''<hr>'' @
        line_break @ ''<p><em>Agreed to policies: '' @
          (if agreeToPolicy d then ''Yes'' else ''No'') @ ''</em></p>'' @
        CHR 0x0A # ''      '',
      replyTo = email d\<rparr>"

text \<open>The member the contact flow adds (lines 256 to 271 of the source).\<close>

definition contact_member :: "ContactSubmission \<Rightarrow> member" where
  "contact_member d =
     (let nameParts = split_space (name d);
          firstName = (case nameParts of [] \<Rightarrow> [] | p # ps \<Rightarrow> p);
          lastName = join '' '' (drop 1 nameParts)
      in \<lparr>email_address = email d, member_status = ''subscribed'',
          merge_fields = [(''FNAME'', firstName), (''LNAME'', lastName), (''PHONE'', phone d)],
          tags = Some [''contact-form'']\<rparr>)"

text \<open>
  The enrollment block of the contact handler (lines 240 to 278): nothing when the audience
  identifier is unset or empty; otherwise the digest, the lookup, and the add when the
  lookup throws. An error of the add is logged by the outer \<^verbatim>\<open>catch\<close> and goes no further.
\<close>

definition contact_enroll :: "services \<Rightarrow> env \<Rightarrow> ContactSubmission \<Rightarrow> event list" where
  "contact_enroll sv ev d =
     (if truthy (MAILCHIMP_AUDIENCE_ID ev) then
        (let aid = or_empty (MAILCHIMP_AUDIENCE_ID ev);
             subscriberHash = md5_hex sv (toLowerCase (email d))
         in [Md5Digest (toLowerCase (email d)), GetListMember aid subscriberHash] @
            (case getListMember sv aid subscriberHash of
               Inr u \<Rightarrow> []
             | Inl err \<Rightarrow>
                 AddListMember aid (contact_member d) #
                 (case addListMember sv aid (contact_member d) of
                    Inr st \<Rightarrow> []
                  | Inl mailchimpError \<Rightarrow> [ConsoleError ''Failed to add to newsletter:''])))
      else [])"

text \<open>
  What \<^verbatim>\<open>error.errors\<close> evaluates to on a \<^verbatim>\<open>ZodError\<close> with the given issues. The handler
  reads the property under a \<^verbatim>\<open>@ts-ignore\<close>: the \<^verbatim>\<open>ZodError\<close> of version 4 keeps its issues
  under \<^verbatim>\<open>issues\<close> and has no property \<^verbatim>\<open>errors\<close>, so the value is \<^verbatim>\<open>undefined\<close>.
\<close>

definition ZodError_errors :: "issue list \<Rightarrow> issue list option" where
  "ZodError_errors issues = None"

text \<open>
  \<^verbatim>\<open>POST /api/contact\<close>. A \<^verbatim>\<open>ZodError\<close> is answered from its property \<^verbatim>\<open>errors\<close>; on
  \<^verbatim>\<open>undefined\<close>, \<^verbatim>\<open>error.errors.map\<close> throws a \<^verbatim>\<open>TypeError\<close> inside the \<^verbatim>\<open>catch\<close> block,
  before \<^verbatim>\<open>json\<close> is called, and the handler sends no answer.
\<close>

definition validation_response :: "issue list \<Rightarrow> response" where
  "validation_response errors =
     \<lparr>status = 400,
      json = JObj [(''success'', JBool False), (''message'', JStr ''Validation error''),
                   (''errors'',
                    JArr (map (\<lambda>err. JObj [(''field'', JStr (join ''.'' (path err))),
                                             (''message'', JStr (issue_message err))])
                              errors))]\<rparr>"

definition contact :: "zod \<Rightarrow> services \<Rightarrow> env \<Rightarrow> payload \<Rightarrow> outcome \<times> event list" where
  "contact z sv ev b =
     (case contactFormSchema_parse z b of
        Inl issues \<Rightarrow>
          (case ZodError_errors issues of
             None \<Rightarrow> (Rejected ''TypeError'', [])
           | Some errors \<Rightarrow> (Responded (validation_response errors), []))
      | Inr validatedData \<Rightarrow>
          (case sendMail sv (contact_mailOptions ev validatedData) of
             Inl msg \<Rightarrow>
               (Responded
                  \<lparr>status = 500,
                   json = JObj [(''success'', JBool False),
                                (''message'', JStr ''Failed to submit contact form''),
                                (''error'', JStr msg)]\<rparr>,
                [SendMail (contact_mailOptions ev validatedData),
                 ConsoleError ''Contact form error:''])
           | Inr u \<Rightarrow>
               (Responded
                  \<lparr>status = 200,
                   json = JObj [(''success'', JBool True),
                                (''message'', JStr ''Contact form submitted successfully!'')]\<rparr>,
                SendMail (contact_mailOptions ev validatedData) #
                contact_enroll sv ev validatedData)))"

section \<open>Vocabulary of the specification\<close>

text \<open>Calls to the audience service, and the events of the enrollment step.\<close>

fun audience_call :: "event \<Rightarrow> bool" where
  "audience_call (GetListMember a h) = True"
| "audience_call (AddListMember a m) = True"
| "audience_call (UpdateListMember a h s) = True"
| "audience_call e = False"

fun enrollment_event :: "event \<Rightarrow> bool" where
  "enrollment_event (Md5Digest s) = True"
| "enrollment_event e = audience_call e"





text \<open>
  Two strings are equal up to letter case when they have the same length and, position by
  position, the same character or the capital and the small form of one of the letters A
  to Z, read off the alphabet. An ASCII string has code units below 128 only.
\<close>

definition capitals :: string where
  "capitals = ''ABCDEFGHIJKLMNOPQRSTUVWXYZ''"

definition smalls :: string where
  "smalls = ''abcdefghijklmnopqrstuvwxyz''"

definition same_letter :: "char \<Rightarrow> char \<Rightarrow> bool" where
  "same_letter a b =
     (a = b \<or> (a, b) \<in> set (zip capitals smalls) \<or> (b, a) \<in> set (zip capitals smalls))"

definition equal_up_to_case :: "string \<Rightarrow> string \<Rightarrow> bool" where
  "equal_up_to_case s t = list_all2 same_letter s t"

definition ascii :: "string \<Rightarrow> bool" where
  "ascii s = list_all (\<lambda>c. (of_char c :: nat) < 128) s"

text \<open>
  The name split of the specification: the tokens of the name are its maximal runs of
  characters that are not whitespace; the first is the first name, the others joined by
  single spaces are the last name.
\<close>

definition whitespace :: "char \<Rightarrow> bool" where
  "whitespace c = (c \<in> set [CHR '' '', CHR 0x09, CHR 0x0A, CHR 0x0B, CHR 0x0C, CHR 0x0D, CHR 0xA0])"

fun spec_tokens :: "string \<Rightarrow> string \<Rightarrow> string list" where
  "spec_tokens cur [] = (if cur = [] then [] else [cur])"
| "spec_tokens cur (c # cs) =
     (if whitespace c then (if cur = [] then spec_tokens [] cs else cur # spec_tokens [] cs)
      else spec_tokens (cur @ [c]) cs)"

definition spec_member :: "ContactSubmission \<Rightarrow> member" where
  "spec_member d =
     \<lparr>email_address = email d, member_status = ''subscribed'',
      merge_fields =
        [(''FNAME'', (case spec_tokens [] (name d) of [] \<Rightarrow> [] | t # ts \<Rightarrow> t)),
         (''LNAME'', join '' '' (drop 1 (spec_tokens [] (name d)))),
         (''PHONE'', phone d)],
      tags = Some [''contact-form'']\<rparr>"

section \<open>Sample requests and collaborators\<close>

text \<open>
  The library as version 4 ships it. Its email pattern is
  \<^verbatim>\<open>^(?!\.)(?!.*\.\.)([A-Za-z0-9_'+\-\.]*)[A-Za-z0-9_+-]@([A-Za-z0-9][A-Za-z0-9\-]*\.)+[A-Za-z]{2,}$\<close>:
  no leading dot, no two dots in a row, a local part that ends in a letter, a digit or one of
  \<^verbatim>\<open>_+-\<close>, then labels closed by dots and a top-level name of two letters or more.
\<close>

definition letter :: "char \<Rightarrow> bool" where
  "letter c = (c \<in> set (capitals @ smalls))"

definition alnum :: "char \<Rightarrow> bool" where
  "alnum c = (c \<in> set (capitals @ smalls @ ''0123456789''))"

fun split_at :: "char \<Rightarrow> string \<Rightarrow> string list" where
  "split_at sep [] = [[]]"
| "split_at sep (c # cs) =
     (if c = sep then [] # split_at sep cs
      else (case split_at sep cs of [] \<Rightarrow> [[c]] | p # ps \<Rightarrow> (c # p) # ps))"

fun two_dots :: "string \<Rightarrow> bool" where
  "two_dots (a # b # cs) = ((a = CHR ''.'' \<and> b = CHR ''.'') \<or> two_dots (b # cs))"
| "two_dots cs = False"

definition domain_label :: "string \<Rightarrow> bool" where
  "domain_label l =
     (case l of [] \<Rightarrow> False | c # cs \<Rightarrow> alnum c \<and> list_all (\<lambda>d. alnum d \<or> d = CHR ''-'') cs)"

definition email_pattern :: "string \<Rightarrow> bool" where
  "email_pattern s =
     (let local_part = takeWhile (\<lambda>c. c \<noteq> CHR ''@'') s;
          rest = dropWhile (\<lambda>c. c \<noteq> CHR ''@'') s
      in (case s of [] \<Rightarrow> False | c # cs \<Rightarrow> c \<noteq> CHR ''.'') \<and>
         \<not> two_dots s \<and>
         list_all (\<lambda>c. alnum c \<or> c \<in> set [CHR ''_'', CHR 0x27, CHR ''+'', CHR ''-'', CHR ''.''])
           local_part \<and>
         (case rev local_part of
            [] \<Rightarrow> False
          | c # cs \<Rightarrow> alnum c \<or> c \<in> set [CHR ''_'', CHR ''+'', CHR ''-'']) \<and>
         (case rest of
            [] \<Rightarrow> False
          | at # domain \<Rightarrow>
              (let parts = split_at CHR ''.'' domain
               in 2 \<le> length parts \<and> list_all domain_label (butlast parts) \<and>
                  2 \<le> length (last parts) \<and> list_all letter (last parts))))"

definition zod_sample :: zod where
  "zod_sample =
     \<lparr>email_format = email_pattern,
      invalid_type_message = (\<lambda>expected received.
        ''Invalid input: expected '' @ expected @ '', received '' @ received)\<rparr>"

definition env_sample :: env where
  "env_sample =
     \<lparr>MAILCHIMP_AUDIENCE_ID = Some ''list1'', GMAIL_USER = Some ''relay@example.com'',
      CONTACT_FORM_RECIPIENT = Some ''owner@example.com''\<rparr>"

definition env_unconfigured :: env where
  "env_unconfigured = env_sample\<lparr>MAILCHIMP_AUDIENCE_ID := None\<rparr>"

definition service_error :: MailchimpError where
  "service_error =
     \<lparr>err_status = Some 404,
      err_response = Some \<lparr>body = Some \<lparr>title = Some ''Resource Not Found''\<rparr>\<rparr>,
      err_message = ''Not Found''\<rparr>"

definition member_exists :: MailchimpError where
  "member_exists =
     \<lparr>err_status = Some 400,
      err_response = Some \<lparr>body = Some \<lparr>title = Some ''Member Exists''\<rparr>\<rparr>,
      err_message = ''Bad Request''\<rparr>"

text \<open>An audience service where every call throws, behind a transport that delivers.\<close>

definition services_down :: services where
  "services_down =
     \<lparr>sendMail = (\<lambda>m. Inr ()),
      getListMember = (\<lambda>a h. Inl service_error),
      addListMember = (\<lambda>a m. Inl service_error),
      updateListMember = (\<lambda>a h s. Inl service_error),
      md5_hex = (\<lambda>s. ''md5:'' @ s)\<rparr>"

definition submission_with :: "string \<Rightarrow> string \<Rightarrow> string \<Rightarrow> (string \<times> scalar) list" where
  "submission_with n topic msg =
     [(''name'', VStr n), (''email'', VStr ''User@Example.com''),
      (''phone'', VStr ''0123456789''), (''contactAbout'', VStr topic),
      (''message'', VStr msg), (''agreeToPolicy'', VBool True)]"

definition submission :: "(string \<times> scalar) list" where
  "submission = submission_with ''Jane Q Public'' ''sales'' ''Please call me back today.''"

section \<open>Sample evaluations\<close>

lemma sample_email: "email_pattern ''User@Example.com''"
  by code_simp

lemma parse_submission_with:
  "2 \<le> length n \<Longrightarrow> 20 \<le> length msg \<Longrightarrow> length msg \<le> 1000 \<Longrightarrow>
   contactFormSchema_parse zod_sample (Object (submission_with n topic msg)) =
     Inr \<lparr>name = n, email = ''User@Example.com'', phone = ''0123456789'',
          contactAbout = topic, message = msg, agreeToPolicy = True\<rparr>"
  by (simp add: contactFormSchema_parse_def object_issues_def submission_with_def
      zod_sample_def sample_email name_issues_def email_issues_def phone_issues_def
      contactAbout_issues_def message_issues_def agreeToPolicy_issues_def the_string_def
      the_bool_def)

lemma parse_submission:
  "contactFormSchema_parse zod_sample (Object submission) =
     Inr \<lparr>name = ''Jane Q Public'', email = ''User@Example.com'', phone = ''0123456789'',
          contactAbout = ''sales'', message = ''Please call me back today.'',
          agreeToPolicy = True\<rparr>"
  unfolding submission_def by (rule parse_submission_with) simp_all

section \<open>Facts about the schema\<close>

lemma message_issues_text:
  "message_issues z (Some (VStr s)) = [] \<longleftrightarrow> 20 \<le> length s \<and> length s \<le> 1000"
  by (auto simp: message_issues_def)

lemma object_issues_Nil:
  "object_issues z kvs = [] \<longleftrightarrow>
     name_issues z (map_of kvs ''name'') = [] \<and>
     email_issues z (map_of kvs ''email'') = [] \<and>
     phone_issues z (map_of kvs ''phone'') = [] \<and>
     contactAbout_issues z (map_of kvs ''contactAbout'') = [] \<and>
     message_issues z (map_of kvs ''message'') = [] \<and>
     agreeToPolicy_issues z (map_of kvs ''agreeToPolicy'') = []"
  by (simp add: object_issues_def)

lemma parse_Object:
  "contactFormSchema_parse z (Object kvs) =
     (if object_issues z kvs = []
      then Inr \<lparr>name = the_string (map_of kvs ''name''),
                email = the_string (map_of kvs ''email''),
                phone = the_string (map_of kvs ''phone''),
                contactAbout = the_string (map_of kvs ''contactAbout''),
                message = the_string (map_of kvs ''message''),
                agreeToPolicy = the_bool (map_of kvs ''agreeToPolicy'')\<rparr>
      else Inl (object_issues z kvs))"
  by (simp add: contactFormSchema_parse_def)

lemma map_of_submission_with:
  "map_of (submission_with n topic msg) ''name'' = Some (VStr n)"
  "map_of (submission_with n topic msg) ''email'' = Some (VStr ''User@Example.com'')"
  "map_of (submission_with n topic msg) ''phone'' = Some (VStr ''0123456789'')"
  "map_of (submission_with n topic msg) ''contactAbout'' = Some (VStr topic)"
  "map_of (submission_with n topic msg) ''message'' = Some (VStr msg)"
  "map_of (submission_with n topic msg) ''agreeToPolicy'' = Some (VBool True)"
  by (simp_all add: submission_with_def)

lemma others_fine:
  "name_issues zod_sample (Some (VStr ''Jane Q Public'')) = [] \<and>
   email_issues zod_sample (Some (VStr ''User@Example.com'')) = [] \<and>
   phone_issues zod_sample (Some (VStr ''0123456789'')) = [] \<and>
   contactAbout_issues zod_sample (Some (VStr topic)) = [] \<and>
   agreeToPolicy_issues zod_sample (Some (VBool True)) = []"
  by (simp add: name_issues_def email_issues_def phone_issues_def contactAbout_issues_def
      agreeToPolicy_issues_def zod_sample_def sample_email)








lemma parse_not_object:
  "contactFormSchema_parse z Array =
     Inl [\<lparr>path = [], issue_message = invalid_type_message z ''object'' ''array''\<rparr>]"
  "contactFormSchema_parse z (Scalar v) =
     Inl [\<lparr>path = [], issue_message = invalid_type_message z ''object'' (received_type v)\<rparr>]"
  by (simp_all add: contactFormSchema_parse_def)

lemma contact_invalid:
  "contactFormSchema_parse z b = Inl issues \<Longrightarrow> contact z sv ev b = (Rejected ''TypeError'', [])"
  by (simp add: contact_def ZodError_errors_def)

section \<open>Splitting a name\<close>

lemma split_space_not_Nil: "split_space s \<noteq> []"
  by (induction s) (auto split: list.splits)

lemma join_Cons_Cons: "join sep ((c # p) # ps) = c # join sep (p # ps)"
  by (cases ps) simp_all

lemma join_split_space: "join '' '' (split_space s) = s"
proof (induction s)
  case Nil
  show ?case by simp
next
  case (Cons c cs)
  obtain p ps where sp: "split_space cs = p # ps"
    using split_space_not_Nil [of cs] by (cases "split_space cs") auto
  with Cons show ?case
    by (simp add: join_Cons_Cons)
qed

lemma split_space_pieces: "p \<in> set (split_space s) \<Longrightarrow> CHR '' '' \<notin> set p"
proof (induction s arbitrary: p)
  case Nil
  then show ?case by simp
next
  case (Cons c cs)
  obtain q qs where sp: "split_space cs = q # qs"
    using split_space_not_Nil [of cs] by (cases "split_space cs") auto
  with Cons show ?case
    by (auto split: if_splits)
qed

lemma first_piece:
  "(case split_space s of [] \<Rightarrow> [] | p # ps \<Rightarrow> p) = takeWhile (\<lambda>c. c \<noteq> CHR '' '') s"
proof (induction s)
  case Nil
  show ?case by simp
next
  case (Cons c cs)
  obtain q qs where sp: "split_space cs = q # qs"
    using split_space_not_Nil [of cs] by (cases "split_space cs") auto
  with Cons show ?case
    by simp
qed

lemma other_pieces:
  "join '' '' (drop 1 (split_space s)) = drop 1 (dropWhile (\<lambda>c. c \<noteq> CHR '' '') s)"
proof (induction s)
  case Nil
  show ?case by simp
next
  case (Cons c cs)
  obtain q qs where sp: "split_space cs = q # qs"
    using split_space_not_Nil [of cs] by (cases "split_space cs") auto
  show ?case
  proof (cases "c = CHR '' ''")
    case True
    then show ?thesis
      by (simp add: join_split_space)
  next
    case False
    with Cons sp show ?thesis
      by simp
  qed
qed

lemma tab_name_parse:
  "contactFormSchema_parse zod_sample
     (Object (submission_with (''Jane'' @ [CHR 0x09] @ ''Public'') ''sales''
        ''Please call me back today.'')) =
     Inr \<lparr>name = ''Jane'' @ [CHR 0x09] @ ''Public'', email = ''User@Example.com'',
          phone = ''0123456789'', contactAbout = ''sales'',
          message = ''Please call me back today.'', agreeToPolicy = True\<rparr>"
  by (rule parse_submission_with) simp_all

section \<open>Letter case\<close>

lemma lower_unit_alphabet:
  "list_all (\<lambda>(u, l). lower_unit u = l \<and> lower_unit l = l) (zip capitals smalls)"
  by code_simp

lemma same_letter_lower: "same_letter a b \<Longrightarrow> lower_unit a = lower_unit b"
  using lower_unit_alphabet by (auto simp: same_letter_def list_all_iff)

lemma equal_up_to_case_lower: "equal_up_to_case s t \<Longrightarrow> toLowerCase s = toLowerCase t"
  unfolding equal_up_to_case_def toLowerCase_def
  by (induction rule: list_all2_induct) (simp_all add: same_letter_lower)

lemma equal_up_to_case_Nil: "equal_up_to_case s t \<Longrightarrow> s = [] \<longleftrightarrow> t = []"
  by (auto simp: equal_up_to_case_def)

lemma lower_sample: "toLowerCase ''User@Example.com'' = ''user@example.com''"
  by code_simp

lemma sample_up_to_case: "equal_up_to_case ''User@Example.com'' ''user@example.com''"
  by code_simp

lemma alphabet_ascii:
  "list_all (\<lambda>(u, l). (of_char u :: nat) < 128 \<and> (of_char l :: nat) < 128) (zip capitals smalls)"
  by code_simp

lemma same_letter_ascii:
  "same_letter a b \<Longrightarrow> (of_char a :: nat) < 128 \<Longrightarrow> (of_char b :: nat) < 128"
  using alphabet_ascii by (auto simp: same_letter_def list_all_iff)

lemma equal_up_to_case_ascii: "equal_up_to_case s t \<Longrightarrow> ascii s \<Longrightarrow> ascii t"
  unfolding equal_up_to_case_def ascii_def
  by (induction rule: list_all2_induct) (simp_all add: same_letter_ascii)

section \<open>Validation\<close>

text \<open>
  C9. A message of length exactly 20 or exactly 1000 raises no issue, and the submission is
  accepted with it when the other properties raise none; a message of length 19 or 1001
  raises one issue, and the submission is rejected with that issue among the reported ones.
\<close>

theorem message_length_boundaries:
  assumes "map_of kvs ''message'' = Some (VStr s)"
  shows "(length s = 20 \<or> length s = 1000 \<longrightarrow>
            message_issues z (Some (VStr s)) = [] \<and>
            (name_issues z (map_of kvs ''name'') = [] \<and>
             email_issues z (map_of kvs ''email'') = [] \<and>
             phone_issues z (map_of kvs ''phone'') = [] \<and>
             contactAbout_issues z (map_of kvs ''contactAbout'') = [] \<and>
             agreeToPolicy_issues z (map_of kvs ''agreeToPolicy'') = [] \<longrightarrow>
             (\<exists>d. contactFormSchema_parse z (Object kvs) = Inr d \<and> message d = s)))
       \<and> (length s = 19 \<or> length s = 1001 \<longrightarrow>
            length (message_issues z (Some (VStr s))) = 1 \<and>
            (\<exists>issues. contactFormSchema_parse z (Object kvs) = Inl issues \<and>
                      set (message_issues z (Some (VStr s))) \<subseteq> set issues))"
proof (intro conjI impI)
  assume "length s = 20 \<or> length s = 1000"
  then show ok: "message_issues z (Some (VStr s)) = []"
    by (auto simp: message_issues_text)
  assume "name_issues z (map_of kvs ''name'') = [] \<and>
             email_issues z (map_of kvs ''email'') = [] \<and>
             phone_issues z (map_of kvs ''phone'') = [] \<and>
             contactAbout_issues z (map_of kvs ''contactAbout'') = [] \<and>
             agreeToPolicy_issues z (map_of kvs ''agreeToPolicy'') = []"
  with ok assms have "object_issues z kvs = []"
    by (simp add: object_issues_Nil)
  then show "\<exists>d. contactFormSchema_parse z (Object kvs) = Inr d \<and> message d = s"
    using assms by (simp add: parse_Object the_string_def)
next
  assume b: "length s = 19 \<or> length s = 1001"
  then show "length (message_issues z (Some (VStr s))) = 1"
    by (auto simp: message_issues_def)
  from b have "message_issues z (Some (VStr s)) \<noteq> []"
    by (auto simp: message_issues_text)
  with assms have "object_issues z kvs \<noteq> []"
    by (simp add: object_issues_Nil)
  moreover have "set (message_issues z (Some (VStr s))) \<subseteq> set (object_issues z kvs)"
    using assms by (auto simp: object_issues_def)
  ultimately show "\<exists>issues. contactFormSchema_parse z (Object kvs) = Inl issues \<and>
                      set (message_issues z (Some (VStr s))) \<subseteq> set issues"
    by (simp add: parse_Object)
qed

theorem message_length_boundaries_witness:
  "(\<exists>d. contactFormSchema_parse zod_sample
          (Object (submission_with ''Jane Q Public'' ''sales'' (replicate 20 CHR ''a''))) = Inr d
        \<and> message d = replicate 20 CHR ''a'')
   \<and> (\<exists>d. contactFormSchema_parse zod_sample
          (Object (submission_with ''Jane Q Public'' ''sales'' (replicate 1000 CHR ''a''))) = Inr d
        \<and> message d = replicate 1000 CHR ''a'')
   \<and> isl (contactFormSchema_parse zod_sample
          (Object (submission_with ''Jane Q Public'' ''sales'' (replicate 19 CHR ''a''))))
   \<and> isl (contactFormSchema_parse zod_sample
          (Object (submission_with ''Jane Q Public'' ''sales'' (replicate 1001 CHR ''a''))))"
proof -
  note m = map_of_submission_with
  have a: "\<exists>d. contactFormSchema_parse zod_sample
          (Object (submission_with ''Jane Q Public'' ''sales'' (replicate 20 CHR ''a''))) = Inr d
        \<and> message d = replicate 20 CHR ''a''"
    using message_length_boundaries [OF m(5), of "replicate 20 CHR ''a''" zod_sample
        "''Jane Q Public''" "''sales''"] others_fine [of "''sales''"]
    by (simp add: m)
  have b: "\<exists>d. contactFormSchema_parse zod_sample
          (Object (submission_with ''Jane Q Public'' ''sales'' (replicate 1000 CHR ''a''))) = Inr d
        \<and> message d = replicate 1000 CHR ''a''"
    using message_length_boundaries [OF m(5), of "replicate 1000 CHR ''a''" zod_sample
        "''Jane Q Public''" "''sales''"] others_fine [of "''sales''"]
    by (simp add: m)
  have c: "isl (contactFormSchema_parse zod_sample
          (Object (submission_with ''Jane Q Public'' ''sales'' (replicate 19 CHR ''a''))))"
    using message_length_boundaries [OF m(5), of "replicate 19 CHR ''a''" zod_sample
        "''Jane Q Public''" "''sales''"]
    by auto
  have d: "isl (contactFormSchema_parse zod_sample
          (Object (submission_with ''Jane Q Public'' ''sales'' (replicate 1001 CHR ''a''))))"
    using message_length_boundaries [OF m(5), of "replicate 1001 CHR ''a''" zod_sample
        "''Jane Q Public''" "''sales''"]
    by auto
  from a b c d show ?thesis by blast
qed

text \<open>
  C4. The claim asks that an empty \<^verbatim>\<open>contactAbout\<close> be rejected. The schema gives the
  property no minimum length: with the other properties valid, the submission is accepted.
\<close>

theorem empty_topic_counterexample:
  "contactFormSchema_parse zod_sample
     (Object (submission_with ''Jane Q Public'' [] ''Please call me back today.'')) =
     Inr \<lparr>name = ''Jane Q Public'', email = ''User@Example.com'', phone = ''0123456789'',
          contactAbout = [], message = ''Please call me back today.'', agreeToPolicy = True\<rparr>"
  by (rule parse_submission_with) simp_all

text \<open>
  C4, as amended. When the other five properties raise no issue, a submission whose
  \<^verbatim>\<open>contactAbout\<close> is a text, the empty one included, is accepted with that text; one whose
  \<^verbatim>\<open>contactAbout\<close> is missing or not a text is rejected with the single issue
  \<^verbatim>\<open>Please select a topic.\<close> at the path \<^verbatim>\<open>contactAbout\<close>.
\<close>

theorem contactAbout_text_only:
  assumes "name_issues z (map_of kvs ''name'') = []"
    and "email_issues z (map_of kvs ''email'') = []"
    and "phone_issues z (map_of kvs ''phone'') = []"
    and "message_issues z (map_of kvs ''message'') = []"
    and "agreeToPolicy_issues z (map_of kvs ''agreeToPolicy'') = []"
  shows "(case map_of kvs ''contactAbout'' of
            Some (VStr t) \<Rightarrow>
              (\<exists>d. contactFormSchema_parse z (Object kvs) = Inr d \<and> contactAbout d = t)
          | _ \<Rightarrow>
              contactFormSchema_parse z (Object kvs) =
                Inl [\<lparr>path = [''contactAbout''], issue_message = ''Please select a topic.''\<rparr>])"
  using assms
  by (simp add: parse_Object object_issues_def contactAbout_issues_def the_string_def
      split: option.splits scalar.splits)

theorem contactAbout_text_only_witness:
  "(\<exists>d. contactFormSchema_parse zod_sample
          (Object (submission_with ''Jane Q Public'' [] ''Please call me back today.'')) = Inr d
        \<and> contactAbout d = [])
   \<and> contactFormSchema_parse zod_sample
       (Object [(''name'', VStr ''Jane Q Public''), (''email'', VStr ''User@Example.com''),
                (''phone'', VStr ''0123456789''),
                (''message'', VStr ''Please call me back today.''),
                (''agreeToPolicy'', VBool True)]) =
       Inl [\<lparr>path = [''contactAbout''], issue_message = ''Please select a topic.''\<rparr>]"
proof -
  let ?kvs = "submission_with ''Jane Q Public'' [] ''Please call me back today.''"
  let ?bare = "[(''name'', VStr ''Jane Q Public''), (''email'', VStr ''User@Example.com''),
                (''phone'', VStr ''0123456789''),
                (''message'', VStr ''Please call me back today.''),
                (''agreeToPolicy'', VBool True)]"
  have msg: "message_issues zod_sample (Some (VStr ''Please call me back today.'')) = []"
    by (simp add: message_issues_text)
  have 1: "\<exists>d. contactFormSchema_parse zod_sample (Object ?kvs) = Inr d \<and> contactAbout d = []"
    using contactAbout_text_only [of zod_sample ?kvs] others_fine [of "[]"] msg
    by (simp add: map_of_submission_with)
  have 2: "contactFormSchema_parse zod_sample (Object ?bare) =
       Inl [\<lparr>path = [''contactAbout''], issue_message = ''Please select a topic.''\<rparr>]"
    using contactAbout_text_only [of zod_sample ?bare] others_fine [of "[]"] msg
    by simp
  from 1 2 show ?thesis by blast
qed




section \<open>The contact flow\<close>

text \<open>
  C1. A submission that passes validation and whose notification is delivered is answered
  with 200 and \<^verbatim>\<open>success: true\<close>, whatever the audience service does. When the audience
  identifier is set and the lookup throws, the add call is made; an error of the lookup or
  of the add changes nothing in the answer, and the handler does answer.
\<close>

theorem contact_success_isolated:
  assumes "contactFormSchema_parse z b = Inr d"
    and "sendMail sv (contact_mailOptions ev d) = Inr ()"
  shows "fst (contact z sv ev b) =
           Responded \<lparr>status = 200,
                      json = JObj [(''success'', JBool True),
                                   (''message'', JStr ''Contact form submitted successfully!'')]\<rparr>
         \<and> (truthy (MAILCHIMP_AUDIENCE_ID ev) \<and>
            isl (getListMember sv (or_empty (MAILCHIMP_AUDIENCE_ID ev))
                   (md5_hex sv (toLowerCase (email d))))
            \<longrightarrow> AddListMember (or_empty (MAILCHIMP_AUDIENCE_ID ev)) (contact_member d)
                  \<in> set (snd (contact z sv ev b)))"
  using assms
  by (auto simp: contact_def contact_enroll_def Let_def isl_def split: sum.splits)

theorem contact_success_isolated_witness:
  "fst (contact zod_sample services_down env_sample (Object submission)) =
     Responded \<lparr>status = 200,
                json = JObj [(''success'', JBool True),
                             (''message'', JStr ''Contact form submitted successfully!'')]\<rparr>
   \<and> AddListMember ''list1'' (contact_member
        \<lparr>name = ''Jane Q Public'', email = ''User@Example.com'', phone = ''0123456789'',
         contactAbout = ''sales'', message = ''Please call me back today.'',
         agreeToPolicy = True\<rparr>)
     \<in> set (snd (contact zod_sample services_down env_sample (Object submission)))
   \<and> ConsoleError ''Failed to add to newsletter:''
     \<in> set (snd (contact zod_sample services_down env_sample (Object submission)))"
proof -
  let ?d = "\<lparr>name = ''Jane Q Public'', email = ''User@Example.com'', phone = ''0123456789'',
         contactAbout = ''sales'', message = ''Please call me back today.'',
         agreeToPolicy = True\<rparr>"
  have s: "sendMail services_down (contact_mailOptions env_sample ?d) = Inr ()"
    by (simp add: services_down_def)
  have c: "truthy (MAILCHIMP_AUDIENCE_ID env_sample) \<and>
           isl (getListMember services_down (or_empty (MAILCHIMP_AUDIENCE_ID env_sample))
                  (md5_hex services_down (toLowerCase (email ?d))))"
    by (simp add: env_sample_def services_down_def)
  have l: "ConsoleError ''Failed to add to newsletter:''
     \<in> set (snd (contact zod_sample services_down env_sample (Object submission)))"
    by (simp add: contact_def parse_submission s contact_enroll_def env_sample_def
        services_down_def or_empty_def Let_def)
  from contact_success_isolated [OF parse_submission s] c l show ?thesis
    by (simp add: env_sample_def or_empty_def)
qed

text \<open>
  C2. A submission that passes validation and whose notification send throws is answered
  with 500, the message \<^verbatim>\<open>Failed to submit contact form\<close> and the text of the transport's
  error; the only events are the send and the log line: no digest, no lookup, no add.
\<close>

theorem contact_send_failure:
  assumes "contactFormSchema_parse z b = Inr d"
    and "sendMail sv (contact_mailOptions ev d) = Inl msg"
  shows "contact z sv ev b =
           (Responded \<lparr>status = 500,
                       json = JObj [(''success'', JBool False),
                                    (''message'', JStr ''Failed to submit contact form''),
                                    (''error'', JStr msg)]\<rparr>,
            [SendMail (contact_mailOptions ev d), ConsoleError ''Contact form error:''])
         \<and> filter enrollment_event (snd (contact z sv ev b)) = []"
  using assms by (simp add: contact_def)

theorem contact_send_failure_witness:
  "contact zod_sample (services_down\<lparr>sendMail := (\<lambda>m. Inl ''Invalid login'')\<rparr>) env_sample
     (Object submission) =
     (Responded \<lparr>status = 500,
                 json = JObj [(''success'', JBool False),
                              (''message'', JStr ''Failed to submit contact form''),
                              (''error'', JStr ''Invalid login'')]\<rparr>,
      [SendMail (contact_mailOptions env_sample
         \<lparr>name = ''Jane Q Public'', email = ''User@Example.com'', phone = ''0123456789'',
          contactAbout = ''sales'', message = ''Please call me back today.'',
          agreeToPolicy = True\<rparr>),
       ConsoleError ''Contact form error:''])
   \<and> filter enrollment_event
       (snd (contact zod_sample (services_down\<lparr>sendMail := (\<lambda>m. Inl ''Invalid login'')\<rparr>)
          env_sample (Object submission))) = []"
  using contact_send_failure [OF parse_submission,
      of "services_down\<lparr>sendMail := (\<lambda>m. Inl ''Invalid login'')\<rparr>" env_sample "''Invalid login''"]
  by simp

text \<open>
  C10. The claim gives the 200 success to every validated submission handled while the
  audience identifier is not configured. When the transport throws, the answer is the 500
  of the failed send, configured or not.
\<close>

theorem send_failure_unconfigured_counterexample:
  "contactFormSchema_parse zod_sample (Object submission) =
     Inr \<lparr>name = ''Jane Q Public'', email = ''User@Example.com'', phone = ''0123456789'',
          contactAbout = ''sales'', message = ''Please call me back today.'',
          agreeToPolicy = True\<rparr>
   \<and> \<not> truthy (MAILCHIMP_AUDIENCE_ID env_unconfigured)
   \<and> fst (contact zod_sample (services_down\<lparr>sendMail := (\<lambda>m. Inl ''Invalid login'')\<rparr>)
          env_unconfigured (Object submission)) =
     Responded \<lparr>status = 500,
                json = JObj [(''success'', JBool False),
                             (''message'', JStr ''Failed to submit contact form''),
                             (''error'', JStr ''Invalid login'')]\<rparr>"
  by (simp add: parse_submission contact_def env_unconfigured_def)

text \<open>
  C10, as amended. A submission that passes validation while the audience identifier is
  unset or empty skips the enrollment block: no digest, no lookup, no add, and the answer is
  never the configuration error. Once the notification is delivered the answer is the 200
  success, with the send as the only event. The newsletter endpoints, given an email,
  answer the same configuration with the 500 configuration error.
\<close>

theorem contact_without_audience:
  assumes "contactFormSchema_parse z b = Inr d"
    and "\<not> truthy (MAILCHIMP_AUDIENCE_ID ev)"
  shows "contact_enroll sv ev d = []
       \<and> filter enrollment_event (snd (contact z sv ev b)) = []
       \<and> fst (contact z sv ev b) \<noteq>
           Responded \<lparr>status = 500,
                      json = JObj [(''success'', JBool False),
                                   (''message'', JStr ''Mailchimp audience ID is not configured'')]\<rparr>
       \<and> (sendMail sv (contact_mailOptions ev d) = Inr () \<longrightarrow>
            contact z sv ev b =
              (Responded \<lparr>status = 200,
                          json = JObj [(''success'', JBool True),
                                       (''message'', JStr ''Contact form submitted successfully!'')]\<rparr>,
               [SendMail (contact_mailOptions ev d)]))
       \<and> (truthy (sub_email r) \<longrightarrow>
            subscribe sv ev (Some r) =
              (Responded \<lparr>status = 500,
                json = JObj [(''success'', JBool False),
                             (''message'', JStr ''Mailchimp audience ID is not configured'')]\<rparr>, []))
       \<and> (e \<noteq> [] \<longrightarrow>
            unsubscribe sv ev e =
              (\<lparr>status = 500,
                json = JObj [(''success'', JBool False),
                             (''message'', JStr ''Mailchimp audience ID is not configured'')]\<rparr>, []))"
proof -
  have enroll: "contact_enroll sv ev d = []"
    using assms(2) by (simp add: contact_enroll_def)
  have events: "filter enrollment_event (snd (contact z sv ev b)) = []"
    using assms(1) enroll by (simp add: contact_def split: sum.splits)
  have noconf: "fst (contact z sv ev b) \<noteq>
           Responded \<lparr>status = 500,
                      json = JObj [(''success'', JBool False),
                                   (''message'', JStr ''Mailchimp audience ID is not configured'')]\<rparr>"
    using assms(1) by (simp add: contact_def split: sum.splits)
  have ok: "sendMail sv (contact_mailOptions ev d) = Inr () \<longrightarrow>
            contact z sv ev b =
              (Responded \<lparr>status = 200,
                          json = JObj [(''success'', JBool True),
                                       (''message'', JStr ''Contact form submitted successfully!'')]\<rparr>,
               [SendMail (contact_mailOptions ev d)])"
    using assms(1) enroll by (simp add: contact_def)
  have sub: "truthy (sub_email r) \<longrightarrow>
            subscribe sv ev (Some r) =
              (Responded \<lparr>status = 500,
                json = JObj [(''success'', JBool False),
                             (''message'', JStr ''Mailchimp audience ID is not configured'')]\<rparr>, [])"
    using assms(2) by (simp add: subscribe_def)
  have unsub: "e \<noteq> [] \<longrightarrow>
            unsubscribe sv ev e =
              (\<lparr>status = 500,
                json = JObj [(''success'', JBool False),
                             (''message'', JStr ''Mailchimp audience ID is not configured'')]\<rparr>, [])"
    using assms(2) by (simp add: unsubscribe_def)
  from enroll events noconf ok sub unsub show ?thesis by blast
qed

theorem contact_without_audience_witness:
  "contact zod_sample services_down env_unconfigured (Object submission) =
     (Responded \<lparr>status = 200,
                 json = JObj [(''success'', JBool True),
                              (''message'', JStr ''Contact form submitted successfully!'')]\<rparr>,
      [SendMail (contact_mailOptions env_unconfigured
         \<lparr>name = ''Jane Q Public'', email = ''User@Example.com'', phone = ''0123456789'',
          contactAbout = ''sales'', message = ''Please call me back today.'',
          agreeToPolicy = True\<rparr>)])
   \<and> subscribe services_down env_unconfigured
       (Some \<lparr>sub_email = Some ''user@example.com'', firstName = None, lastName = None\<rparr>) =
     (Responded \<lparr>status = 500,
       json = JObj [(''success'', JBool False),
                    (''message'', JStr ''Mailchimp audience ID is not configured'')]\<rparr>, [])
   \<and> unsubscribe services_down env_unconfigured ''user@example.com'' =
     (\<lparr>status = 500,
       json = JObj [(''success'', JBool False),
                    (''message'', JStr ''Mailchimp audience ID is not configured'')]\<rparr>, [])"
proof -
  have u: "\<not> truthy (MAILCHIMP_AUDIENCE_ID env_unconfigured)"
    by (simp add: env_unconfigured_def)
  show ?thesis
    using contact_without_audience [OF parse_submission u, of services_down
        "\<lparr>sub_email = Some ''user@example.com'', firstName = None, lastName = None\<rparr>"
        "''user@example.com''"]
    by (simp add: services_down_def)
qed

text \<open>
  C8. The claim splits the name on whitespace. The handler splits on the space character
  only: in a name whose two words are separated by a tab, the whole name becomes the first
  name and the last name is empty, where the split of the claim gives \<^verbatim>\<open>Jane\<close> and
  \<^verbatim>\<open>Public\<close>.
\<close>

theorem name_split_counterexample:
  "snd (contact zod_sample services_down env_sample
     (Object (submission_with (''Jane'' @ [CHR 0x09] @ ''Public'') ''sales''
        ''Please call me back today.''))) ! 3 =
     AddListMember ''list1''
       \<lparr>email_address = ''User@Example.com'', member_status = ''subscribed'',
        merge_fields = [(''FNAME'', ''Jane'' @ [CHR 0x09] @ ''Public''), (''LNAME'', []),
                        (''PHONE'', ''0123456789'')],
        tags = Some [''contact-form'']\<rparr>
   \<and> merge_fields (spec_member
        \<lparr>name = ''Jane'' @ [CHR 0x09] @ ''Public'', email = ''User@Example.com'',
         phone = ''0123456789'', contactAbout = ''sales'',
         message = ''Please call me back today.'', agreeToPolicy = True\<rparr>) =
       [(''FNAME'', ''Jane''), (''LNAME'', ''Public''), (''PHONE'', ''0123456789'')]
   \<and> AddListMember ''list1'' (spec_member
        \<lparr>name = ''Jane'' @ [CHR 0x09] @ ''Public'', email = ''User@Example.com'',
         phone = ''0123456789'', contactAbout = ''sales'',
         message = ''Please call me back today.'', agreeToPolicy = True\<rparr>)
       \<notin> set (snd (contact zod_sample services_down env_sample
           (Object (submission_with (''Jane'' @ [CHR 0x09] @ ''Public'') ''sales''
              ''Please call me back today.''))))"
proof -
  let ?d = "\<lparr>name = ''Jane'' @ [CHR 0x09] @ ''Public'', email = ''User@Example.com'',
         phone = ''0123456789'', contactAbout = ''sales'',
         message = ''Please call me back today.'', agreeToPolicy = True\<rparr>"
  have m: "contact_member ?d =
       \<lparr>email_address = ''User@Example.com'', member_status = ''subscribed'',
        merge_fields = [(''FNAME'', ''Jane'' @ [CHR 0x09] @ ''Public''), (''LNAME'', []),
                        (''PHONE'', ''0123456789'')],
        tags = Some [''contact-form'']\<rparr>"
    by (simp add: contact_member_def)
  have s: "spec_member ?d =
       \<lparr>email_address = ''User@Example.com'', member_status = ''subscribed'',
        merge_fields = [(''FNAME'', ''Jane''), (''LNAME'', ''Public''),
                        (''PHONE'', ''0123456789'')],
        tags = Some [''contact-form'']\<rparr>"
    by (simp add: spec_member_def whitespace_def)
  have e: "contact_enroll services_down env_sample ?d =
     [Md5Digest (toLowerCase ''User@Example.com''),
      GetListMember ''list1'' (''md5:'' @ toLowerCase ''User@Example.com''),
      AddListMember ''list1'' (contact_member ?d),
      ConsoleError ''Failed to add to newsletter:'']"
    by (simp add: contact_enroll_def env_sample_def services_down_def or_empty_def Let_def)
  have c: "snd (contact zod_sample services_down env_sample
     (Object (submission_with (''Jane'' @ [CHR 0x09] @ ''Public'') ''sales''
        ''Please call me back today.''))) =
     SendMail (contact_mailOptions env_sample ?d) #
     contact_enroll services_down env_sample ?d"
    unfolding contact_def tab_name_parse by (simp add: services_down_def)
  show ?thesis
    unfolding c e m s by simp
qed

text \<open>
  C8, as amended. For a validated submission whose notification is delivered and whose
  lookup throws, with the audience identifier set, the member is added with the status
  \<^verbatim>\<open>subscribed\<close>, the tag \<^verbatim>\<open>contact-form\<close>, the phone, and the name split at every space
  character (and at no other whitespace) into tokens that may be empty: the first token,
  which is the text before the first space, is the first name, and the other tokens joined
  by single spaces, which is the text after the first space, are the last name (empty when
  the name has no space).
\<close>

theorem contact_member_from_name:
  assumes "contactFormSchema_parse z b = Inr d"
    and "sendMail sv (contact_mailOptions ev d) = Inr ()"
    and "truthy (MAILCHIMP_AUDIENCE_ID ev)"
    and "isl (getListMember sv (or_empty (MAILCHIMP_AUDIENCE_ID ev))
                (md5_hex sv (toLowerCase (email d))))"
  shows "AddListMember (or_empty (MAILCHIMP_AUDIENCE_ID ev))
           \<lparr>email_address = email d, member_status = ''subscribed'',
            merge_fields =
              [(''FNAME'', takeWhile (\<lambda>c. c \<noteq> CHR '' '') (name d)),
               (''LNAME'', drop 1 (dropWhile (\<lambda>c. c \<noteq> CHR '' '') (name d))),
               (''PHONE'', phone d)],
            tags = Some [''contact-form'']\<rparr>
           \<in> set (snd (contact z sv ev b))
       \<and> (\<exists>tokens. tokens \<noteq> [] \<and> join '' '' tokens = name d \<and>
              (\<forall>t \<in> set tokens. CHR '' '' \<notin> set t) \<and>
              takeWhile (\<lambda>c. c \<noteq> CHR '' '') (name d) = hd tokens \<and>
              drop 1 (dropWhile (\<lambda>c. c \<noteq> CHR '' '') (name d)) = join '' '' (tl tokens))"
proof -
  have member: "contact_member d =
           \<lparr>email_address = email d, member_status = ''subscribed'',
            merge_fields =
              [(''FNAME'', takeWhile (\<lambda>c. c \<noteq> CHR '' '') (name d)),
               (''LNAME'', drop 1 (dropWhile (\<lambda>c. c \<noteq> CHR '' '') (name d))),
               (''PHONE'', phone d)],
            tags = Some [''contact-form'']\<rparr>"
    unfolding contact_member_def Let_def first_piece other_pieces by (rule refl)
  have "AddListMember (or_empty (MAILCHIMP_AUDIENCE_ID ev)) (contact_member d)
          \<in> set (snd (contact z sv ev b))"
    using assms
    by (auto simp: contact_def contact_enroll_def Let_def isl_def split: sum.splits)
  then have call: "AddListMember (or_empty (MAILCHIMP_AUDIENCE_ID ev))
           \<lparr>email_address = email d, member_status = ''subscribed'',
            merge_fields =
              [(''FNAME'', takeWhile (\<lambda>c. c \<noteq> CHR '' '') (name d)),
               (''LNAME'', drop 1 (dropWhile (\<lambda>c. c \<noteq> CHR '' '') (name d))),
               (''PHONE'', phone d)],
            tags = Some [''contact-form'']\<rparr>
           \<in> set (snd (contact z sv ev b))"
    by (simp only: member)
  obtain p ps where sp: "split_space (name d) = p # ps"
    using split_space_not_Nil [of "name d"] by (cases "split_space (name d)") auto
  have "split_space (name d) \<noteq> []"
    by (rule split_space_not_Nil)
  moreover have "join '' '' (split_space (name d)) = name d"
    by (rule join_split_space)
  moreover have "\<forall>t \<in> set (split_space (name d)). CHR '' '' \<notin> set t"
    by (simp add: split_space_pieces)
  moreover have "takeWhile (\<lambda>c. c \<noteq> CHR '' '') (name d) = hd (split_space (name d))"
    using first_piece [of "name d"] by (simp add: sp)
  moreover have "drop 1 (dropWhile (\<lambda>c. c \<noteq> CHR '' '') (name d)) =
                 join '' '' (tl (split_space (name d)))"
    using other_pieces [of "name d"] by (simp add: sp)
  ultimately have "\<exists>tokens. tokens \<noteq> [] \<and> join '' '' tokens = name d \<and>
              (\<forall>t \<in> set tokens. CHR '' '' \<notin> set t) \<and>
              takeWhile (\<lambda>c. c \<noteq> CHR '' '') (name d) = hd tokens \<and>
              drop 1 (dropWhile (\<lambda>c. c \<noteq> CHR '' '') (name d)) = join '' '' (tl tokens)"
    by blast
  with call show ?thesis by blast
qed

theorem contact_member_from_name_witness:
  "AddListMember ''list1''
     \<lparr>email_address = ''User@Example.com'', member_status = ''subscribed'',
      merge_fields = [(''FNAME'', ''Jane''), (''LNAME'', ''Q Public''),
                      (''PHONE'', ''0123456789'')],
      tags = Some [''contact-form'']\<rparr>
     \<in> set (snd (contact zod_sample services_down env_sample (Object submission)))"
proof -
  let ?d = "\<lparr>name = ''Jane Q Public'', email = ''User@Example.com'', phone = ''0123456789'',
            contactAbout = ''sales'', message = ''Please call me back today.'',
            agreeToPolicy = True\<rparr>"
  have s: "sendMail services_down (contact_mailOptions env_sample ?d) = Inr ()"
    by (simp add: services_down_def)
  have c: "truthy (MAILCHIMP_AUDIENCE_ID env_sample)"
    by (simp add: env_sample_def)
  have g: "isl (getListMember services_down (or_empty (MAILCHIMP_AUDIENCE_ID env_sample))
                  (md5_hex services_down (toLowerCase (email ?d))))"
    by (simp add: services_down_def)
  have a: "or_empty (MAILCHIMP_AUDIENCE_ID env_sample) = ''list1''"
    by (simp add: env_sample_def or_empty_def)
  from contact_member_from_name [OF parse_submission s c g]
  show ?thesis
    by (simp add: a)
qed

section \<open>The newsletter endpoints\<close>

text \<open>
  C7. When the add call of a subscribe request throws an error with status 400 and the
  nested body title \<^verbatim>\<open>Member Exists\<close>, the answer is 400 with the message that the email
  is already subscribed; any other error of the add call is answered with the generic 500.
\<close>

theorem subscribe_member_exists:
  assumes "truthy (sub_email b)" and "truthy (MAILCHIMP_AUDIENCE_ID ev)"
    and "addListMember sv (or_empty (MAILCHIMP_AUDIENCE_ID ev))
           (subscribe_member (or_empty (sub_email b)) b) = Inl err"
  shows "fst (subscribe sv ev (Some b)) =
           Responded
             (if err_status err = Some 400 \<and>
                 (\<exists>r bd. err_response err = Some r \<and> body r = Some bd \<and>
                          title bd = Some ''Member Exists'')
              then \<lparr>status = 400,
                     json = JObj [(''success'', JBool False),
                                  (''message'',
                                   JStr ''This email is already subscribed to the newsletter'')]\<rparr>
              else \<lparr>status = 500,
                     json = JObj [(''success'', JBool False),
                                  (''message'', JStr ''Failed to subscribe to newsletter''),
                                  (''error'', JStr (err_message err))]\<rparr>)"
  using assms by (auto simp: subscribe_def Let_def split: option.splits)

theorem subscribe_member_exists_witness:
  "fst (subscribe (services_down\<lparr>addListMember := (\<lambda>a m. Inl member_exists)\<rparr>) env_sample
          (Some \<lparr>sub_email = Some ''user@example.com'', firstName = None, lastName = None\<rparr>)) =
     Responded \<lparr>status = 400,
      json = JObj [(''success'', JBool False),
                   (''message'', JStr ''This email is already subscribed to the newsletter'')]\<rparr>
   \<and> fst (subscribe services_down env_sample
          (Some \<lparr>sub_email = Some ''user@example.com'', firstName = None, lastName = None\<rparr>)) =
     Responded \<lparr>status = 500,
      json = JObj [(''success'', JBool False),
                   (''message'', JStr ''Failed to subscribe to newsletter''),
                   (''error'', JStr ''Not Found'')]\<rparr>"
proof -
  let ?b = "\<lparr>sub_email = Some ''user@example.com'', firstName = None, lastName = None\<rparr>"
  have a: "truthy (sub_email ?b)" and c: "truthy (MAILCHIMP_AUDIENCE_ID env_sample)"
    by (simp_all add: env_sample_def)
  have "fst (subscribe (services_down\<lparr>addListMember := (\<lambda>a m. Inl member_exists)\<rparr>) env_sample
          (Some ?b)) =
     Responded \<lparr>status = 400,
      json = JObj [(''success'', JBool False),
                   (''message'', JStr ''This email is already subscribed to the newsletter'')]\<rparr>"
    using subscribe_member_exists [OF a c,
        of "services_down\<lparr>addListMember := (\<lambda>a m. Inl member_exists)\<rparr>" member_exists]
    by (simp add: member_exists_def)
  moreover have "fst (subscribe services_down env_sample (Some ?b)) =
     Responded \<lparr>status = 500,
      json = JObj [(''success'', JBool False),
                   (''message'', JStr ''Failed to subscribe to newsletter''),
                   (''error'', JStr ''Not Found'')]\<rparr>"
    using subscribe_member_exists [OF a c, of services_down service_error]
    by (simp add: services_down_def service_error_def)
  ultimately show ?thesis by simp
qed

text \<open>
  C6. The claim asks for the 500 configuration error on every request made while the
  audience identifier is not configured. The subscribe handler looks at the email first: a
  request whose body has no email, or an empty one, is answered 400 \<^verbatim>\<open>Email is required\<close>.
\<close>

theorem subscribe_without_email_counterexample:
  "\<not> truthy (MAILCHIMP_AUDIENCE_ID env_unconfigured)
   \<and> subscribe services_down env_unconfigured
       (Some \<lparr>sub_email = None, firstName = Some ''Jane'', lastName = None\<rparr>) =
     (Responded \<lparr>status = 400,
       json = JObj [(''success'', JBool False), (''message'', JStr ''Email is required'')]\<rparr>, [])
   \<and> subscribe services_down env_unconfigured
       (Some \<lparr>sub_email = Some [], firstName = None, lastName = None\<rparr>) =
     (Responded \<lparr>status = 400,
       json = JObj [(''success'', JBool False), (''message'', JStr ''Email is required'')]\<rparr>, [])"
  by (simp add: subscribe_def env_unconfigured_def)

text \<open>
  C6, as amended. While the audience identifier is unset or empty, a subscribe or
  unsubscribe request that carries a non-empty email is answered 500 with the message
  \<^verbatim>\<open>Mailchimp audience ID is not configured\<close>, which is none of the service-error answers,
  and no call is made.
\<close>

theorem newsletter_unconfigured:
  assumes "\<not> truthy (MAILCHIMP_AUDIENCE_ID ev)"
  shows "(truthy (sub_email b) \<longrightarrow>
            subscribe sv ev (Some b) =
              (Responded
                 \<lparr>status = 500,
                  json = JObj [(''success'', JBool False),
                               (''message'', JStr ''Mailchimp audience ID is not configured'')]\<rparr>,
               []))
       \<and> (e \<noteq> [] \<longrightarrow>
            unsubscribe sv ev e =
              (\<lparr>status = 500,
                json = JObj [(''success'', JBool False),
                             (''message'', JStr ''Mailchimp audience ID is not configured'')]\<rparr>, []))
       \<and> JObj [(''success'', JBool False),
                (''message'', JStr ''Mailchimp audience ID is not configured'')] \<noteq>
           JObj [(''success'', JBool False),
                 (''message'', JStr ''Failed to subscribe to newsletter''),
                 (''error'', JStr msg)]
       \<and> JObj [(''success'', JBool False),
                (''message'', JStr ''Mailchimp audience ID is not configured'')] \<noteq>
           JObj [(''success'', JBool False),
                 (''message'', JStr ''Failed to unsubscribe from newsletter''),
                 (''error'', JStr msg)]"
  using assms
  by (simp add: subscribe_def unsubscribe_def)

theorem newsletter_unconfigured_witness:
  "subscribe services_down env_unconfigured
       (Some \<lparr>sub_email = Some ''user@example.com'', firstName = None, lastName = None\<rparr>) =
     (Responded
        \<lparr>status = 500,
         json = JObj [(''success'', JBool False),
                      (''message'', JStr ''Mailchimp audience ID is not configured'')]\<rparr>, [])
   \<and> unsubscribe services_down (env_sample\<lparr>MAILCHIMP_AUDIENCE_ID := Some []\<rparr>)
       ''user@example.com'' =
     (\<lparr>status = 500,
       json = JObj [(''success'', JBool False),
                    (''message'', JStr ''Mailchimp audience ID is not configured'')]\<rparr>, [])"
proof -
  let ?b = "\<lparr>sub_email = Some ''user@example.com'', firstName = None, lastName = None\<rparr>"
  have u: "\<not> truthy (MAILCHIMP_AUDIENCE_ID env_unconfigured)"
    by (simp add: env_unconfigured_def)
  have v: "\<not> truthy (MAILCHIMP_AUDIENCE_ID (env_sample\<lparr>MAILCHIMP_AUDIENCE_ID := Some []\<rparr>))"
    by simp
  from newsletter_unconfigured [OF u, of ?b services_down "''user@example.com''"]
  have 1: "subscribe services_down env_unconfigured (Some ?b) =
     (Responded
        \<lparr>status = 500,
         json = JObj [(''success'', JBool False),
                      (''message'', JStr ''Mailchimp audience ID is not configured'')]\<rparr>, [])"
    by simp
  from newsletter_unconfigured [OF v, of ?b services_down "''user@example.com''"]
  have 2: "unsubscribe services_down (env_sample\<lparr>MAILCHIMP_AUDIENCE_ID := Some []\<rparr>)
       ''user@example.com'' =
     (\<lparr>status = 500,
       json = JObj [(''success'', JBool False),
                    (''message'', JStr ''Mailchimp audience ID is not configured'')]\<rparr>, [])"
    by simp
  from 1 2 show ?thesis by blast
qed

text \<open>
  C5. The claim has the derived identifier used for the add call as well. The add call of
  the contact flow carries the address as it was submitted and no digest: for two addresses
  that differ in letter case only, the two add calls differ.
\<close>

theorem add_payload_counterexample:
  "equal_up_to_case ''User@Example.com'' ''user@example.com''
   \<and> ascii ''User@Example.com''
   \<and> contact_enroll services_down env_sample
       \<lparr>name = ''Jane Q Public'', email = ''User@Example.com'', phone = ''0123456789'',
        contactAbout = ''sales'', message = ''Please call me back today.'',
        agreeToPolicy = True\<rparr> ! 2 =
     AddListMember ''list1''
       \<lparr>email_address = ''User@Example.com'', member_status = ''subscribed'',
        merge_fields = [(''FNAME'', ''Jane''), (''LNAME'', ''Q Public''),
                        (''PHONE'', ''0123456789'')],
        tags = Some [''contact-form'']\<rparr>
   \<and> contact_enroll services_down env_sample
       \<lparr>name = ''Jane Q Public'', email = ''user@example.com'', phone = ''0123456789'',
        contactAbout = ''sales'', message = ''Please call me back today.'',
        agreeToPolicy = True\<rparr> ! 2 =
     AddListMember ''list1''
       \<lparr>email_address = ''user@example.com'', member_status = ''subscribed'',
        merge_fields = [(''FNAME'', ''Jane''), (''LNAME'', ''Q Public''),
                        (''PHONE'', ''0123456789'')],
        tags = Some [''contact-form'']\<rparr>
   \<and> contact_member
       \<lparr>name = ''Jane Q Public'', email = ''User@Example.com'', phone = ''0123456789'',
        contactAbout = ''sales'', message = ''Please call me back today.'',
        agreeToPolicy = True\<rparr> \<noteq>
     contact_member
       \<lparr>name = ''Jane Q Public'', email = ''user@example.com'', phone = ''0123456789'',
        contactAbout = ''sales'', message = ''Please call me back today.'',
        agreeToPolicy = True\<rparr>"
proof -
  have a: "ascii ''User@Example.com''"
    by code_simp
  have m: "contact_member
       \<lparr>name = ''Jane Q Public'', email = e, phone = ''0123456789'',
        contactAbout = ''sales'', message = ''Please call me back today.'',
        agreeToPolicy = True\<rparr> =
       \<lparr>email_address = e, member_status = ''subscribed'',
        merge_fields = [(''FNAME'', ''Jane''), (''LNAME'', ''Q Public''),
                        (''PHONE'', ''0123456789'')],
        tags = Some [''contact-form'']\<rparr>" for e
    by (simp add: contact_member_def)
  have e: "contact_enroll services_down env_sample
       \<lparr>name = ''Jane Q Public'', email = e, phone = ''0123456789'',
        contactAbout = ''sales'', message = ''Please call me back today.'',
        agreeToPolicy = True\<rparr> ! 2 =
     AddListMember ''list1'' (contact_member
       \<lparr>name = ''Jane Q Public'', email = e, phone = ''0123456789'',
        contactAbout = ''sales'', message = ''Please call me back today.'',
        agreeToPolicy = True\<rparr>)" for e
    by (simp add: contact_enroll_def env_sample_def services_down_def or_empty_def Let_def)
  show ?thesis
    unfolding e m using sample_up_to_case a by simp
qed

text \<open>
  C5, as amended. For two ASCII emails that are equal up to letter case, the member
  identifier, the digest of the lowercased email in lowercase hexadecimal, is the same. The
  lookup of the contact flow carries that identifier for either email, and the update of the
  unsubscribe endpoint carries it too: both derive it by the same digest of the lowercased
  email. The add call carries the address as it was submitted.
\<close>

theorem member_identifier_ignores_case:
  assumes "equal_up_to_case e1 e2" and "ascii e1"
  shows "ascii e2
       \<and> md5_hex sv (toLowerCase e1) = md5_hex sv (toLowerCase e2)
       \<and> (truthy (MAILCHIMP_AUDIENCE_ID ev) \<longrightarrow>
            contact_enroll sv ev (d\<lparr>email := e1\<rparr>) ! 1 =
              GetListMember (or_empty (MAILCHIMP_AUDIENCE_ID ev)) (md5_hex sv (toLowerCase e1)) \<and>
            contact_enroll sv ev (d\<lparr>email := e2\<rparr>) ! 1 =
              GetListMember (or_empty (MAILCHIMP_AUDIENCE_ID ev)) (md5_hex sv (toLowerCase e1)))
       \<and> (truthy (MAILCHIMP_AUDIENCE_ID ev) \<and> e1 \<noteq> [] \<longrightarrow>
            snd (unsubscribe sv ev e1) =
              [Md5Digest (toLowerCase e1),
               UpdateListMember (or_empty (MAILCHIMP_AUDIENCE_ID ev))
                 (md5_hex sv (toLowerCase e1)) ''unsubscribed''] \<and>
            snd (unsubscribe sv ev e2) = snd (unsubscribe sv ev e1))
       \<and> email_address (contact_member (d\<lparr>email := e1\<rparr>)) = e1
       \<and> email_address (contact_member (d\<lparr>email := e2\<rparr>)) = e2"
proof -
  from assms(1) have low: "toLowerCase e2 = toLowerCase e1"
    by (simp add: equal_up_to_case_lower)
  from assms(1) have ne: "e2 = [] \<longleftrightarrow> e1 = []"
    by (simp add: equal_up_to_case_Nil)
  from assms have asc: "ascii e2"
    by (rule equal_up_to_case_ascii)
  have digest: "md5_hex sv (toLowerCase e1) = md5_hex sv (toLowerCase e2)"
    by (simp add: low)
  have lookup: "truthy (MAILCHIMP_AUDIENCE_ID ev) \<Longrightarrow>
            contact_enroll sv ev (d\<lparr>email := e\<rparr>) ! 1 =
              GetListMember (or_empty (MAILCHIMP_AUDIENCE_ID ev)) (md5_hex sv (toLowerCase e))" for e
    by (simp add: contact_enroll_def Let_def)
  have update: "truthy (MAILCHIMP_AUDIENCE_ID ev) \<Longrightarrow> e \<noteq> [] \<Longrightarrow>
            snd (unsubscribe sv ev e) =
              [Md5Digest (toLowerCase e),
               UpdateListMember (or_empty (MAILCHIMP_AUDIENCE_ID ev))
                 (md5_hex sv (toLowerCase e)) ''unsubscribed'']" for e
    by (simp add: unsubscribe_def Let_def)
  have add: "email_address (contact_member (d\<lparr>email := e\<rparr>)) = e" for e
    by (simp add: contact_member_def Let_def)
  from asc digest lookup [of e1] lookup [of e2] update [of e1] update [of e2] add [of e1] add [of e2]
  show ?thesis
    unfolding low using ne by simp
qed

theorem member_identifier_ignores_case_witness:
  "md5_hex services_down (toLowerCase ''User@Example.com'') =
     md5_hex services_down (toLowerCase ''user@example.com'')
   \<and> contact_enroll services_down env_sample
       \<lparr>name = ''Jane Q Public'', email = ''User@Example.com'', phone = ''0123456789'',
        contactAbout = ''sales'', message = ''Please call me back today.'',
        agreeToPolicy = True\<rparr> ! 1 =
     GetListMember ''list1'' ''md5:user@example.com''
   \<and> snd (unsubscribe services_down env_sample ''user@example.com'') =
       [Md5Digest ''user@example.com'',
        UpdateListMember ''list1'' ''md5:user@example.com'' ''unsubscribed'']"
proof -
  let ?d = "\<lparr>name = ''Jane Q Public'', email = ''User@Example.com'', phone = ''0123456789'',
            contactAbout = ''sales'', message = ''Please call me back today.'',
            agreeToPolicy = True\<rparr>"
  have c: "truthy (MAILCHIMP_AUDIENCE_ID env_sample)"
    by (simp add: env_sample_def)
  have h: "md5_hex services_down ''user@example.com'' = ''md5:user@example.com''"
    by (simp add: services_down_def)
  have a: "or_empty (MAILCHIMP_AUDIENCE_ID env_sample) = ''list1''"
    by (simp add: env_sample_def or_empty_def)
  have l: "toLowerCase ''user@example.com'' = ''user@example.com''"
    by code_simp
  have asc: "ascii ''User@Example.com''"
    by code_simp
  from member_identifier_ignores_case [OF sample_up_to_case asc, of services_down env_sample ?d] c
  show ?thesis
    by (simp add: lower_sample l a h)
qed

end
